theory Spec2Isabelle
  imports Main
begin

section \<open>JavaScript primitives used by the handlers\<close>

text \<open>
  Strings are sequences of code units; the model covers the code units below 256, which is
  what \<^typ>\<open>char\<close> holds. The functions of this section are the built-ins of the language
  and of the runtime's \<^verbatim>\<open>path\<close> module (POSIX flavour) that \<^verbatim>\<open>server.js\<close> calls.
\<close>

subsection \<open>Numbers\<close>

text \<open>
  The only numbers the handlers compute with are results of \<^verbatim>\<open>parseInt\<close> and \<^verbatim>\<open>Number\<close>;
  \<open>NaN\<close> is kept apart because comparisons and \<^verbatim>\<open>Math.min\<close>/\<^verbatim>\<open>Math.max\<close> treat it specially.
\<close>

datatype number = NaN | Num int

fun Math_min :: "number \<Rightarrow> number \<Rightarrow> number" where
  "Math_min (Num a) (Num b) = Num (min a b)"
| "Math_min _ _ = NaN"

fun Math_max :: "number \<Rightarrow> number \<Rightarrow> number" where
  "Math_max (Num a) (Num b) = Num (max a b)"
| "Math_max _ _ = NaN"

text \<open>
  The amount of an order is a double. \<open>Finite m e\<close> is the number \<open>m * 2 ^ e\<close>; a
  double is such a number with \<open>\<bar>m\<bar> < 2 ^ 53\<close> and \<open>- 1074 \<le> e\<close>, below \<open>2 ^ 1024\<close> in
  magnitude. The two zeros are not told apart (the handlers treat them alike).
  \<open>round_double m e\<close> is the double nearest to \<open>m * 2 ^ e\<close>, ties to the even
  significand, as every arithmetic operation of the language rounds its exact result.
\<close>

datatype double = DNaN | PosInfinity | NegInfinity | Finite int int

function bit_length :: "int \<Rightarrow> nat" where
  "bit_length m = (if m \<le> 0 then 0 else Suc (bit_length (m div 2)))"
  by auto
termination
  by (relation "measure nat") auto

declare bit_length.simps [simp del]

definition round_double :: "int \<Rightarrow> int \<Rightarrow> double" where
  "round_double m e =
     (let n = int (bit_length \<bar>m\<bar>);
          shift = max (n - 53) (- 1074 - e)
      in if shift \<le> 0 then
           (if 1024 < n + e then (if m < 0 then NegInfinity else PosInfinity) else Finite m e)
         else
           (let d = 2 ^ nat shift;
                q = \<bar>m\<bar> div d;
                r = \<bar>m\<bar> mod d;
                q' = (if 2 * r < d then q else if d < 2 * r then q + 1
                      else if even q then q else q + 1)
            in if 1024 < int (bit_length q') + (e + shift)
               then (if m < 0 then NegInfinity else PosInfinity)
               else Finite (if m < 0 then - q' else q') (e + shift)))"

fun negate :: "double \<Rightarrow> double" where
  "negate PosInfinity = NegInfinity"
| "negate NegInfinity = PosInfinity"
| "negate DNaN = DNaN"
| "negate (Finite m e) = Finite (- m) e"

fun js_times :: "double \<Rightarrow> double \<Rightarrow> double" where
  \<comment> \<open>the operator \<^verbatim>\<open>*\<close> on two numbers\<close>
  "js_times (Finite m1 e1) (Finite m2 e2) = round_double (m1 * m2) (e1 + e2)"
| "js_times DNaN y = DNaN"
| "js_times x DNaN = DNaN"
| "js_times (Finite m e) y = (if m = 0 then DNaN else if m < 0 then negate y else y)"
| "js_times x (Finite m e) = (if m = 0 then DNaN else if m < 0 then negate x else x)"
| "js_times x y = (if x = y then PosInfinity else NegInfinity)"

definition falsy_number :: "double \<Rightarrow> bool" where
  \<comment> \<open>\<^verbatim>\<open>!x\<close> on a number: zero and \<^verbatim>\<open>NaN\<close>\<close>
  "falsy_number x = (case x of DNaN \<Rightarrow> True | Finite m e \<Rightarrow> m = 0 | _ \<Rightarrow> False)"

definition le_zero :: "double \<Rightarrow> bool" where
  \<comment> \<open>\<^verbatim>\<open>x <= 0\<close>\<close>
  "le_zero x = (case x of Finite m e \<Rightarrow> m \<le> 0 | NegInfinity \<Rightarrow> True | _ \<Rightarrow> False)"

definition positive :: "double \<Rightarrow> bool" where
  \<comment> \<open>a number greater than zero\<close>
  "positive x = (case x of Finite m e \<Rightarrow> 0 < m | PosInfinity \<Rightarrow> True | _ \<Rightarrow> False)"

subsection \<open>Strings\<close>

definition isWhiteSpace :: "char \<Rightarrow> bool" where
  \<comment> \<open>WhiteSpace and LineTerminator code units below 256: TAB, LF, VT, FF, CR, SP, NBSP.\<close>
  "isWhiteSpace c \<longleftrightarrow> (of_char c :: nat) \<in> {9, 10, 11, 12, 13, 32, 160}"

definition isDigit :: "char \<Rightarrow> bool" where
  "isDigit c \<longleftrightarrow> 48 \<le> (of_char c :: nat) \<and> (of_char c :: nat) \<le> 57"

definition digitValue :: "char \<Rightarrow> int" where
  "digitValue c = int (of_char c) - 48"

fun digitsValue :: "int \<Rightarrow> string \<Rightarrow> int" where
  "digitsValue acc [] = acc"
| "digitsValue acc (c # cs) = digitsValue (acc * 10 + digitValue c) cs"

definition parseInt10 :: "string \<Rightarrow> number" where
  \<comment> \<open>\<^verbatim>\<open>parseInt(s, 10)\<close>: trim leading white space, read a sign, read the longest prefix
      of decimal digits; no digit gives \<open>NaN\<close>.\<close>
  "parseInt10 s =
     (let S = dropWhile isWhiteSpace s;
          sign = (case S of c # _ \<Rightarrow> if c = CHR ''-'' then -1 else 1 | [] \<Rightarrow> (1::int));
          S' = (case S of c # cs \<Rightarrow> if c = CHR ''+'' \<or> c = CHR ''-'' then cs else S | [] \<Rightarrow> S);
          Z = takeWhile isDigit S'
      in if Z = [] then NaN else Num (sign * digitsValue 0 Z))"

definition toLowerCase_char :: "char \<Rightarrow> char" where
  \<comment> \<open>A-Z, and the upper-case letters of Latin-1 (U+00C0..U+00DE without U+00D7).\<close>
  "toLowerCase_char c =
     (let n = (of_char c :: nat)
      in if (65 \<le> n \<and> n \<le> 90) \<or> (192 \<le> n \<and> n \<le> 222 \<and> n \<noteq> 215)
         then char_of (n + 32) else c)"

definition toLowerCase :: "string \<Rightarrow> string" where
  "toLowerCase s = map toLowerCase_char s"

fun replace_dot :: "string \<Rightarrow> string" where
  \<comment> \<open>\<^verbatim>\<open>s.replace(".", "")\<close>: a string pattern replaces the first occurrence only.\<close>
  "replace_dot [] = []"
| "replace_dot (c # cs) = (if c = CHR ''.'' then cs else c # replace_dot cs)"

definition slice :: "string \<Rightarrow> nat \<Rightarrow> nat \<Rightarrow> string" where
  \<comment> \<open>\<^verbatim>\<open>s.slice(start, end)\<close> for \<open>0 \<le> start\<close>, \<open>0 \<le> end\<close>.\<close>
  "slice s start end' = take (end' - start) (drop start s)"

definition or_default :: "string option \<Rightarrow> string \<Rightarrow> string" where
  \<comment> \<open>\<^verbatim>\<open>field || dflt\<close> on a field that is absent or a string\<close>
  "or_default field dflt = (case field of None \<Rightarrow> dflt | Some s \<Rightarrow> if s = [] then dflt else s)"

subsection \<open>The \<^verbatim>\<open>path\<close> module\<close>

text \<open>
  \<^verbatim>\<open>path.extname\<close> and \<^verbatim>\<open>path.basename\<close> scan the string from its last code unit to its
  first; the loops below run the index \<open>i\<close> downwards from \<open>length p - 1\<close> (the counter of
  the recursion is \<open>i + 1\<close>), and \<open>-1\<close> is the "not set" mark of the runtime's code.
\<close>

record ext_state =
  startDot :: int
  startPart :: int
  end' :: int
  matchedSlash :: bool
  preDotState :: int

definition extname_step :: "char \<Rightarrow> nat \<Rightarrow> ext_state \<Rightarrow> ext_state" where
  \<comment> \<open>the loop body at index \<open>i\<close> for a code unit that is not the separator\<close>
  "extname_step code i s =
     (let s1 = (if end' s = -1 then s\<lparr>end' := int i + 1, matchedSlash := False\<rparr> else s)
      in if code = CHR ''.'' then
           (if startDot s1 = -1 then s1\<lparr>startDot := int i\<rparr>
            else if preDotState s1 \<noteq> 1 then s1\<lparr>preDotState := 1\<rparr> else s1)
         else if startDot s1 \<noteq> -1 then s1\<lparr>preDotState := -1\<rparr> else s1)"

fun extname_loop :: "string \<Rightarrow> nat \<Rightarrow> ext_state \<Rightarrow> ext_state" where
  "extname_loop p 0 s = s"
| "extname_loop p (Suc i) s =
     (if p ! i = CHR ''/'' then
        (if \<not> matchedSlash s then s\<lparr>startPart := int i + 1\<rparr> else extname_loop p i s)
      else extname_loop p i (extname_step (p ! i) i s))"

definition extname :: "string \<Rightarrow> string" where
  "extname p =
     (let s = extname_loop p (length p)
                \<lparr>startDot = -1, startPart = 0, end' = -1, matchedSlash = True, preDotState = 0\<rparr>
      in if startDot s = -1 \<or> end' s = -1 \<or> preDotState s = 0 \<or>
            (preDotState s = 1 \<and> startDot s = end' s - 1 \<and> startDot s = startPart s + 1)
         then [] else slice p (nat (startDot s)) (nat (end' s)))"

record base_state =
  start :: int
  bend :: int
  bmatchedSlash :: bool
  extIdx :: int
  firstNonSlashEnd :: int

definition basename_suffix_step :: "char \<Rightarrow> string \<Rightarrow> nat \<Rightarrow> base_state \<Rightarrow> base_state" where
  \<comment> \<open>the loop body at index \<open>i\<close> for a code unit that is not the separator\<close>
  "basename_suffix_step code suffix i s =
     (let s1 = (if firstNonSlashEnd s = -1
                then s\<lparr>bmatchedSlash := False, firstNonSlashEnd := int i + 1\<rparr> else s)
      in if extIdx s1 \<ge> 0 then
           (if code = suffix ! nat (extIdx s1) then
              (if extIdx s1 - 1 = -1 then s1\<lparr>extIdx := -1, bend := int i\<rparr>
               else s1\<lparr>extIdx := extIdx s1 - 1\<rparr>)
            else s1\<lparr>extIdx := -1, bend := firstNonSlashEnd s1\<rparr>)
         else s1)"

fun basename_suffix_loop :: "string \<Rightarrow> string \<Rightarrow> nat \<Rightarrow> base_state \<Rightarrow> base_state" where
  "basename_suffix_loop p suffix 0 s = s"
| "basename_suffix_loop p suffix (Suc i) s =
     (if p ! i = CHR ''/'' then
        (if \<not> bmatchedSlash s then s\<lparr>start := int i + 1\<rparr> else basename_suffix_loop p suffix i s)
      else basename_suffix_loop p suffix i (basename_suffix_step (p ! i) suffix i s))"

fun basename_loop :: "string \<Rightarrow> nat \<Rightarrow> base_state \<Rightarrow> base_state" where
  "basename_loop p 0 s = s"
| "basename_loop p (Suc i) s =
     (if p ! i = CHR ''/'' then
        (if \<not> bmatchedSlash s then s\<lparr>start := int i + 1\<rparr> else basename_loop p i s)
      else if bend s = -1 then basename_loop p i (s\<lparr>bmatchedSlash := False, bend := int i + 1\<rparr>)
      else basename_loop p i s)"

definition basename :: "string \<Rightarrow> string \<Rightarrow> string" where
  \<comment> \<open>\<^verbatim>\<open>path.basename(p, suffix)\<close>\<close>
  "basename p suffix =
     (let s0 = \<lparr>start = 0, bend = -1, bmatchedSlash = True,
                extIdx = int (length suffix) - 1, firstNonSlashEnd = -1\<rparr>
      in if length suffix > 0 \<and> length suffix \<le> length p then
           (if suffix = p then []
            else let s = basename_suffix_loop p suffix (length p) s0;
                     e = (if start s = bend s then firstNonSlashEnd s
                          else if bend s = -1 then int (length p) else bend s)
                 in slice p (nat (start s)) (nat e))
         else let s = basename_loop p (length p) s0
              in if bend s = -1 then [] else slice p (nat (start s)) (nat (bend s)))"

definition TMP_DIR :: string where
  \<comment> \<open>\<^verbatim>\<open>path.join(__dirname, "tmp")\<close>, with the server's directory as the current one.\<close>
  "TMP_DIR = ''tmp''"

definition path_join :: "string \<Rightarrow> string \<Rightarrow> string" where
  \<comment> \<open>\<^verbatim>\<open>path.join(dir, name)\<close> for a file name that needs no normalisation: the names
      the handlers build carry an appended suffix and, where they are used, no separator.\<close>
  "path_join dir name = dir @ ''/'' @ name"

section \<open>Requests, the temp directory and the external tools\<close>

text \<open>
  An uploaded file as the upload middleware hands it to a handler: the middleware has
  written it into the temp directory at \<open>path\<close>; \<open>originalname\<close> is the client's name.
\<close>

record upload =
  path :: string
  originalname :: string

text \<open>
  The temp directory is the list of the paths that exist in it; \<open>unlinked\<close> records the
  calls of \<^verbatim>\<open>safeUnlink\<close> in order. \<^verbatim>\<open>fs.unlink\<close> on a path that does not exist reports an
  error to its callback, which \<^verbatim>\<open>safeUnlink\<close> logs and drops.
\<close>

record tmpdir =
  files :: "string list"
  unlinked :: "string list"

definition safeUnlink :: "string \<Rightarrow> tmpdir \<Rightarrow> tmpdir" where
  "safeUnlink p d = d\<lparr>files := removeAll p (files d), unlinked := unlinked d @ [p]\<rparr>"

definition writes :: "string list \<Rightarrow> tmpdir \<Rightarrow> tmpdir" where
  \<comment> \<open>the files an external process left behind\<close>
  "writes ps d = d\<lparr>files := files d @ filter (\<lambda>p. p \<notin> set (files d)) (remdups ps)\<rparr>"

text \<open>
  The collaborators are opaque: the image codec returns a buffer or throws; a child process
  started with \<^verbatim>\<open>execFile\<close> ends with or without an error for the callback, and in both
  cases it may have written files. They are parameters of every handler, and each handler
  reports the invocations it made.
\<close>

datatype error = Error string | TypeError

type_synonym buffer = "nat list"

datatype exit = Exited_ok "string list" | Exited_error "string list"

datatype call = Sharp string string number | ExecFile string "string list"

record tools =
  sharp :: "string \<Rightarrow> string \<Rightarrow> number \<Rightarrow> error + buffer"
  execFile :: "string \<Rightarrow> string list \<Rightarrow> exit"
  now :: string  \<comment> \<open>the decimal numeral of \<^verbatim>\<open>Date.now()\<close>\<close>

text \<open>
  A response is its status and its body; headers are left out. \<open>Piped p\<close> is the body
  streamed from the file \<open>p\<close>, \<open>Zip es\<close> the archive with the entries \<open>es\<close> in order. An
  entry is \<open>Append buf name\<close>, from \<^verbatim>\<open>archive.append(buf, {name})\<close>, or \<open>File p name\<close>, from
  \<^verbatim>\<open>archive.file(p, {name})\<close>.
\<close>

datatype entry = Append buffer string | File string string

datatype body =
    Text string
  | Json_error string
  | Buffer buffer
  | Piped string
  | Zip "entry list"
  | Unhandled_stream_error

record response =
  status :: nat
  body :: body

record result =
  resp :: response
  dir :: tmpdir
  calls :: "call list"

definition pipe_file :: "string \<Rightarrow> string list \<Rightarrow> call list \<Rightarrow> tmpdir \<Rightarrow> result" where
  \<comment> \<open>\<^verbatim>\<open>fs.createReadStream(p).pipe(res)\<close> with the \<^verbatim>\<open>close\<close> listener that unlinks \<open>ps\<close>.
      A read stream on a missing file emits \<^verbatim>\<open>error\<close>, which no listener handles.\<close>
  "pipe_file p ps cs d =
     (if p \<in> set (files d)
      then \<lparr>resp = \<lparr>status = 200, body = Piped p\<rparr>, dir = fold safeUnlink ps d, calls = cs\<rparr>
      else \<lparr>resp = \<lparr>status = 200, body = Unhandled_stream_error\<rparr>, dir = d, calls = cs\<rparr>)"

section \<open>Image compressor: the quality option\<close>

text \<open>The field \<^verbatim>\<open>req.body.quality\<close> is absent or a string.\<close>

definition quality_of :: "string option \<Rightarrow> number" where
  \<comment> \<open>\<^verbatim>\<open>Math.max(10, Math.min(100, parseInt(req.body.quality || "80", 10)))\<close>\<close>
  "quality_of q = Math_max (Num 10) (Math_min (Num 100) (parseInt10 (or_default q ''80'')))"

section \<open>Image compressor: the handler\<close>

definition image_exts :: "string list" where
  "image_exts = [''.jpg'', ''.jpeg'', ''.png'', ''.webp'']"

definition targetFormat_of :: "string \<Rightarrow> string" where
  "targetFormat_of ext =
     (if ext = ''.jpg'' \<or> ext = ''.jpeg'' then ''jpeg'' else slice ext 1 (length ext))"

definition compressed_name :: "string \<Rightarrow> string \<Rightarrow> string" where
  "compressed_name base targetFormat =
     base @ ''-compressed.'' @ (if targetFormat = ''jpeg'' then ''jpg'' else targetFormat)"

text \<open>
  The loop over \<^verbatim>\<open>req.files\<close>. The accumulator holds the entries handed to the archiver so
  far, the temp directory and the codec invocations. An exception of the codec is caught
  per file; \<^verbatim>\<open>finally\<close> unlinks the upload on both paths.
\<close>

fun compress_files ::
  "tools \<Rightarrow> number \<Rightarrow> upload list \<Rightarrow> entry list \<times> tmpdir \<times> call list
     \<Rightarrow> entry list \<times> tmpdir \<times> call list" where
  "compress_files t quality [] acc = acc"
| "compress_files t quality (file # rest) (es, d, cs) =
     (let ext = toLowerCase (extname (originalname file));
          base = basename (originalname file) ext
      in if ext \<in> set image_exts then
           (let targetFormat = targetFormat_of ext
            in case sharp t (path file) targetFormat quality of
                 Inr buf \<Rightarrow>
                   compress_files t quality rest
                     (es @ [Append buf (compressed_name base targetFormat)],
                      safeUnlink (path file) d,
                      cs @ [Sharp (path file) targetFormat quality])
               | Inl e \<Rightarrow>
                   compress_files t quality rest
                     (es @ [File (path file) (originalname file)],
                      safeUnlink (path file) d,
                      cs @ [Sharp (path file) targetFormat quality]))
         else
           compress_files t quality rest
             (es @ [File (path file) (originalname file)], safeUnlink (path file) d, cs))"

definition entry_of :: "tools \<Rightarrow> number \<Rightarrow> upload \<Rightarrow> entry" where
  \<comment> \<open>the entry that one iteration of the loop hands to the archiver\<close>
  "entry_of t quality file =
     (let ext = toLowerCase (extname (originalname file));
          base = basename (originalname file) ext
      in if ext \<in> set image_exts then
           (case sharp t (path file) (targetFormat_of ext) quality of
              Inr buf \<Rightarrow> Append buf (compressed_name base (targetFormat_of ext))
            | Inl e \<Rightarrow> File (path file) (originalname file))
         else File (path file) (originalname file))"

text \<open>
  \<^verbatim>\<open>archive.file\<close> only queues the path: the archiver looks the file up and reads it when it
  works its queue off, after the handler's synchronous code, and it leaves out, with a
  warning, an entry whose file does not exist. A buffer handed to \<^verbatim>\<open>archive.append\<close> is
  in memory. \<open>finalize es d\<close> is the archive delivered for the queue \<open>es\<close> when the temp
  directory is \<open>d\<close>.
\<close>

definition readable :: "tmpdir \<Rightarrow> entry \<Rightarrow> bool" where
  "readable d e = (case e of Append buf name \<Rightarrow> True | File p name \<Rightarrow> p \<in> set (files d))"

definition finalize :: "entry list \<Rightarrow> tmpdir \<Rightarrow> entry list" where
  "finalize es d = filter (readable d) es"

definition image_compress :: "tools \<Rightarrow> string option \<Rightarrow> upload list \<Rightarrow> tmpdir \<Rightarrow> result" where
  \<comment> \<open>\<^verbatim>\<open>POST /api/image-compress\<close>; arguments: \<^verbatim>\<open>req.body.quality\<close>, \<^verbatim>\<open>req.files\<close>.\<close>
  "image_compress t quality_field req_files d =
     (let quality = quality_of quality_field
      in if req_files = [] then
           \<lparr>resp = \<lparr>status = 400, body = Text ''No images uploaded''\<rparr>, dir = d, calls = []\<rparr>
         else
           (case compress_files t quality req_files ([], d, []) of
              (es, d', cs) \<Rightarrow>
                \<lparr>resp = \<lparr>status = 200, body = Zip (finalize es d')\<rparr>, dir = d', calls = cs\<rparr>))"

section \<open>PDF compressor\<close>

definition settingMap :: "string \<Rightarrow> string option" where
  "settingMap = map_of [(''low'', ''/screen''), (''medium'', ''/ebook''), (''high'', ''/printer'')]"

definition Object_prototype_keys :: "string list" where
  "Object_prototype_keys =
     [''constructor'', ''__defineGetter__'', ''__defineSetter__'', ''hasOwnProperty'',
      ''__lookupGetter__'', ''__lookupSetter__'', ''isPrototypeOf'', ''propertyIsEnumerable'',
      ''toString'', ''valueOf'', ''__proto__'', ''toLocaleString'']"

definition inherited_text :: "string \<Rightarrow> string" where
  \<comment> \<open>what a template literal makes of a member that the object literal inherits\<close>
  "inherited_text k =
     (if k = ''__proto__'' then ''[object Object]''
      else ''function '' @ (if k = ''constructor'' then ''Object'' else k) @ ''() { [native code] }'')"

definition pdfSetting :: "string \<Rightarrow> string" where
  \<comment> \<open>\<^verbatim>\<open>settingMap[level] || "/ebook"\<close>; the lookup also finds inherited members, all truthy.\<close>
  "pdfSetting level =
     (case settingMap level of
        Some v \<Rightarrow> v
      | None \<Rightarrow> if level \<in> set Object_prototype_keys then inherited_text level else ''/ebook'')"

definition gs_args :: "string \<Rightarrow> string \<Rightarrow> string option \<Rightarrow> string list" where
  \<comment> \<open>the argument list of \<^verbatim>\<open>compressPdfWithGhostscript(inputPath, outputPath, level = "medium")\<close>;
      \<open>None\<close> is the omitted third argument.\<close>
  "gs_args inputPath outputPath level =
     [''-sDEVICE=pdfwrite'', ''-dCompatibilityLevel=1.4'',
      ''-dPDFSETTINGS='' @ pdfSetting (case level of None \<Rightarrow> ''medium'' | Some l \<Rightarrow> l),
      ''-dNOPAUSE'', ''-dQUIET'', ''-dBATCH'',
      ''-sOutputFile='' @ outputPath, inputPath]"

definition compressPdfWithGhostscript ::
  "tools \<Rightarrow> string \<Rightarrow> string \<Rightarrow> string option \<Rightarrow> call \<times> exit" where
  "compressPdfWithGhostscript t inputPath outputPath level =
     (ExecFile ''gs'' (gs_args inputPath outputPath level),
      execFile t ''gs'' (gs_args inputPath outputPath level))"

definition pdf_compress :: "tools \<Rightarrow> upload option \<Rightarrow> string option \<Rightarrow> tmpdir \<Rightarrow> result" where
  \<comment> \<open>\<^verbatim>\<open>POST /api/pdf-compress\<close> of \<^verbatim>\<open>server.js\<close>; arguments: \<^verbatim>\<open>req.file\<close>, \<^verbatim>\<open>req.body.level\<close>.
      The handler reads \<open>level\<close> and calls the compressor with two arguments.\<close>
  "pdf_compress t req_file level_field d =
     (case req_file of
        None \<Rightarrow> \<lparr>resp = \<lparr>status = 400, body = Text ''No PDF uploaded''\<rparr>, dir = d, calls = []\<rparr>
      | Some file \<Rightarrow>
          (let level = or_default level_field ''medium'';
               inputPath = path file;
               outputPath = path_join TMP_DIR (''compressed-'' @ now t @ ''.pdf'')
           in case compressPdfWithGhostscript t inputPath outputPath None of
                (c, Exited_ok ws) \<Rightarrow>
                  pipe_file outputPath [inputPath, outputPath] [c] (writes ws d)
              | (c, Exited_error ws) \<Rightarrow>
                  \<lparr>resp = \<lparr>status = 500, body = Text ''PDF compression failed''\<rparr>,
                   dir = safeUnlink outputPath (safeUnlink inputPath (writes ws d)),
                   calls = [c]\<rparr>))"

definition pdf_compress_draft :: "tools \<Rightarrow> upload option \<Rightarrow> tmpdir \<Rightarrow> result" where
  \<comment> \<open>the same route in the earlier draft of the server: its \<^verbatim>\<open>catch\<close> unlinks the input only\<close>
  "pdf_compress_draft t req_file d =
     (case req_file of
        None \<Rightarrow> \<lparr>resp = \<lparr>status = 400, body = Text ''No PDF uploaded''\<rparr>, dir = d, calls = []\<rparr>
      | Some file \<Rightarrow>
          (let input = path file;
               output = path_join TMP_DIR (''compressed-'' @ now t @ ''.pdf'')
           in case compressPdfWithGhostscript t input output None of
                (c, Exited_ok ws) \<Rightarrow> pipe_file output [input, output] [c] (writes ws d)
              | (c, Exited_error ws) \<Rightarrow>
                  \<lparr>resp = \<lparr>status = 500, body = Text ''PDF compression failed''\<rparr>,
                   dir = safeUnlink input (writes ws d),
                   calls = [c]\<rparr>))"

section \<open>File converter\<close>

definition imageTypes :: "string list" where
  "imageTypes = [''jpg'', ''jpeg'', ''png'', ''webp'']"

definition avTypes :: "string list" where
  "avTypes = [''mp4'', ''mp3'', ''wav'']"

definition docTypes :: "string list" where
  "docTypes = [''doc'', ''docx'', ''ppt'', ''pptx'', ''xls'', ''xlsx'', ''odt'', ''odp'', ''ods'', ''txt'']"

definition convertWithFfmpeg :: "tools \<Rightarrow> string \<Rightarrow> string \<Rightarrow> call \<times> exit" where
  "convertWithFfmpeg t inputPath outputPath =
     (ExecFile ''ffmpeg'' [''-y'', ''-i'', inputPath, outputPath],
      execFile t ''ffmpeg'' [''-y'', ''-i'', inputPath, outputPath])"

definition convertWithLibreOffice :: "tools \<Rightarrow> string \<Rightarrow> string \<Rightarrow> string \<Rightarrow> call \<times> exit" where
  "convertWithLibreOffice t inputPath targetExt outDir =
     (ExecFile ''soffice'' [''--headless'', ''--convert-to'', targetExt, ''--outdir'', outDir, inputPath],
      execFile t ''soffice'' [''--headless'', ''--convert-to'', targetExt, ''--outdir'', outDir, inputPath])"

definition unsupported_message :: "string \<Rightarrow> string \<Rightarrow> string" where
  "unsupported_message ext target =
     ''Conversion from .'' @ ext @ '' to .'' @ target @ '' is not supported yet.''"

definition file_convert :: "tools \<Rightarrow> upload option \<Rightarrow> string option \<Rightarrow> tmpdir \<Rightarrow> result" where
  \<comment> \<open>\<^verbatim>\<open>POST /api/file-convert\<close>; arguments: \<^verbatim>\<open>req.file\<close>, \<^verbatim>\<open>req.body.target\<close>.\<close>
  "file_convert t req_file target_field d =
     (case req_file of
        None \<Rightarrow> \<lparr>resp = \<lparr>status = 400, body = Text ''No file uploaded''\<rparr>, dir = d, calls = []\<rparr>
      | Some file \<Rightarrow>
          (let target = toLowerCase (or_default target_field []);
               inputPath = path file;
               origName = originalname file;
               ext = replace_dot (toLowerCase (extname origName));
               baseName = basename origName (extname origName);
               outputPath = path_join TMP_DIR (baseName @ ''-'' @ now t @ ''.'' @ target);
               failed = \<lparr>status = 500, body = Text ''File conversion failed''\<rparr>
           in if ext \<in> set imageTypes \<and> target \<in> set imageTypes then
                (let targetFormat = (if target = ''jpg'' then ''jpeg'' else target)
                 in case sharp t inputPath targetFormat (Num 80) of
                      Inr buf \<Rightarrow>
                        \<lparr>resp = \<lparr>status = 200, body = Buffer buf\<rparr>,
                         dir = safeUnlink inputPath d,
                         calls = [Sharp inputPath targetFormat (Num 80)]\<rparr>
                    | Inl e \<Rightarrow>
                        \<lparr>resp = failed, dir = safeUnlink inputPath d,
                         calls = [Sharp inputPath targetFormat (Num 80)]\<rparr>)
              else if ext \<in> set avTypes \<and> target \<in> set avTypes then
                (case convertWithFfmpeg t inputPath outputPath of
                   (c, Exited_ok ws) \<Rightarrow>
                     pipe_file outputPath [inputPath, outputPath] [c] (writes ws d)
                 | (c, Exited_error ws) \<Rightarrow>
                     \<lparr>resp = failed, dir = safeUnlink inputPath (writes ws d), calls = [c]\<rparr>)
              else if target = ''pdf'' \<and> ext \<in> set docTypes then
                (let outDir = TMP_DIR
                 in case convertWithLibreOffice t inputPath ''pdf'' outDir of
                      (c, Exited_ok ws) \<Rightarrow>
                        pipe_file (path_join outDir (baseName @ ''.pdf''))
                          [inputPath, path_join outDir (baseName @ ''.pdf'')] [c] (writes ws d)
                    | (c, Exited_error ws) \<Rightarrow>
                        \<lparr>resp = failed, dir = safeUnlink inputPath (writes ws d), calls = [c]\<rparr>)
              else
                \<lparr>resp = \<lparr>status = 400, body = Json_error (unsupported_message ext target)\<rparr>,
                 dir = safeUnlink inputPath d,
                 calls = []\<rparr>))"

section \<open>Payments\<close>

text \<open>
  The process environment holds the gateway's credentials, each absent or a string; a
  variable is truthy when it is set to a non-empty string. The client \<^verbatim>\<open>razorpay\<close> is
  built once, at start-up, when both are truthy.
\<close>

record env =
  RAZORPAY_KEY_ID :: "string option"
  RAZORPAY_KEY_SECRET :: "string option"

definition truthy :: "string option \<Rightarrow> bool" where
  "truthy v = (case v of None \<Rightarrow> False | Some s \<Rightarrow> s \<noteq> [])"

record credentials =
  key_id :: string
  key_secret :: string

definition razorpay :: "env \<Rightarrow> credentials option" where
  "razorpay e =
     (case (RAZORPAY_KEY_ID e, RAZORPAY_KEY_SECRET e) of
        (Some i, Some s) \<Rightarrow>
          if i \<noteq> [] \<and> s \<noteq> [] then Some \<lparr>key_id = i, key_secret = s\<rparr> else None
      | _ \<Rightarrow> None)"

record order_request =
  amount :: double
  currency :: string
  payment_capture :: int

datatype order_response = Order_success string | Order_failure string

text \<open>
  The field \<^verbatim>\<open>req.body.amount\<close> of \<^verbatim>\<open>POST /api/create-order\<close>: absent, a number, or another
  value (a string, a boolean, \<^verbatim>\<open>null\<close>, an array, an object), of which the handler sees
  only whether it is truthy and what \<^verbatim>\<open>Number\<close> turns it into (\<open>None\<close>: the conversion
  throws a \<^verbatim>\<open>TypeError\<close>, as for an object whose own \<^verbatim>\<open>toString\<close> and \<^verbatim>\<open>valueOf\<close> members
  are not callable).
\<close>

datatype amount_value = No_amount | Amount double | Other_amount bool "double option"

fun Number_or_zero :: "amount_value \<Rightarrow> error + double" where
  \<comment> \<open>\<^verbatim>\<open>Number(req.body.amount || 0)\<close>\<close>
  "Number_or_zero No_amount = Inr (Finite 0 0)"
| "Number_or_zero (Amount x) = Inr (if falsy_number x then Finite 0 0 else x)"
| "Number_or_zero (Other_amount t conv) =
     (if \<not> t then Inr (Finite 0 0)
      else case conv of None \<Rightarrow> Inl TypeError | Some x \<Rightarrow> Inr x)"

text \<open>
  The handler. The gateway \<open>create\<close> answers with an order, kept as its text, or throws.
  The result pairs the response with the requests sent to the gateway. An exception of the
  conversion or of the gateway is caught and answered with \<^verbatim>\<open>"Order creation failed"\<close>.
\<close>

definition create_order ::
  "env \<Rightarrow> (credentials \<Rightarrow> order_request \<Rightarrow> error + string) \<Rightarrow> amount_value
     \<Rightarrow> order_response \<times> order_request list" where
  "create_order e create amount_field =
     (case razorpay e of
        None \<Rightarrow> (Order_failure ''Razorpay not configured'', [])
      | Some client \<Rightarrow>
          (case Number_or_zero amount_field of
             Inl err \<Rightarrow> (Order_failure ''Order creation failed'', [])
           | Inr amount' \<Rightarrow>
               if falsy_number amount' \<or> le_zero amount'
               then (Order_failure ''Invalid amount'', [])
               else
                 (let r = \<lparr>amount = js_times amount' (Finite 100 0), currency = ''INR'',
                           payment_capture = 1\<rparr>
                  in case create client r of
                       Inr order \<Rightarrow> (Order_success order, [r])
                     | Inl err \<Rightarrow> (Order_failure ''Order creation failed'', [r]))))"

text \<open>
  A field of the JSON body of \<^verbatim>\<open>POST /api/verify-payment\<close>: absent, a string, or another
  value, of which the handler sees only whether it is truthy and what the operator \<^verbatim>\<open>+\<close>
  turns it into next to a string (\<open>None\<close>: the conversion throws a \<^verbatim>\<open>TypeError\<close>, as for an
  object whose own \<^verbatim>\<open>toString\<close> member is not callable).
\<close>

datatype field = Undefined | Str string | Other bool "string option"

fun truthy_field :: "field \<Rightarrow> bool" where
  "truthy_field Undefined = False"
| "truthy_field (Str s) = (s \<noteq> [])"
| "truthy_field (Other b _) = b"

fun to_string :: "field \<Rightarrow> error + string" where
  "to_string Undefined = Inr ''undefined''"
| "to_string (Str s) = Inr s"
| "to_string (Other _ (Some s)) = Inr s"
| "to_string (Other _ None) = Inl TypeError"

text \<open>
  The body of the handler's \<^verbatim>\<open>try\<close>. \<open>hmac key msg\<close> stands for
  \<^verbatim>\<open>crypto.createHmac("sha256", key).update(msg).digest("hex")\<close>; the second component of
  the result lists the (key, message) pairs it was computed for.
\<close>

definition verify_try ::
  "(string \<Rightarrow> string \<Rightarrow> string) \<Rightarrow> env \<Rightarrow> field \<Rightarrow> field \<Rightarrow> field
     \<Rightarrow> error + bool \<times> (string \<times> string) list" where
  "verify_try hmac e razorpay_order_id razorpay_payment_id razorpay_signature =
     (if \<not> truthy_field razorpay_order_id \<or> \<not> truthy_field razorpay_payment_id \<or>
         \<not> truthy_field razorpay_signature \<or> \<not> truthy (RAZORPAY_KEY_SECRET e)
      then Inr (False, [])
      else
        (case to_string razorpay_order_id of
           Inl err \<Rightarrow> Inl err
         | Inr a \<Rightarrow>
             (case to_string razorpay_payment_id of
                Inl err \<Rightarrow> Inl err
              | Inr b \<Rightarrow>
                  (let body' = a @ ''|'' @ b;
                       secret = or_default (RAZORPAY_KEY_SECRET e) [];
                       expectedSignature = hmac secret body'
                   in if Str expectedSignature = razorpay_signature
                      then Inr (True, [(secret, body')])
                      else Inr (False, [(secret, body')])))))"

definition verify_payment ::
  "(string \<Rightarrow> string \<Rightarrow> string) \<Rightarrow> env \<Rightarrow> field \<Rightarrow> field \<Rightarrow> field
     \<Rightarrow> error + bool \<times> (string \<times> string) list" where
  \<comment> \<open>the handler: \<open>Inr (v, hs)\<close> is the response \<^verbatim>\<open>{verified: v}\<close>, \<open>Inl\<close> an exception that
      leaves the handler. The \<^verbatim>\<open>catch\<close> answers \<^verbatim>\<open>{verified: false}\<close>.\<close>
  "verify_payment hmac e razorpay_order_id razorpay_payment_id razorpay_signature =
     (case verify_try hmac e razorpay_order_id razorpay_payment_id razorpay_signature of
        Inr r \<Rightarrow> Inr r
      | Inl err \<Rightarrow> Inr (False, []))"

section \<open>Video information\<close>

record format =
  qualityLabel :: "string option"
  hasVideo :: bool
  url :: string

record videoInfo =
  formats :: "format list"
  title :: string
  thumbnails :: "string list"

definition QUALITY_MAP :: "string list" where
  "QUALITY_MAP = [''144p'', ''240p'', ''360p'', ''480p'', ''720p'', ''1080p'']"

definition extractLinks :: "videoInfo \<Rightarrow> (string \<times> string option) list" where
  \<comment> \<open>the object \<open>links\<close> as the list of its members in insertion order; \<open>None\<close> is \<^verbatim>\<open>null\<close>\<close>
  "extractLinks info =
     map (\<lambda>q. (q, case find (\<lambda>f. qualityLabel f = Some q \<and> hasVideo f) (formats info) of
                     Some fmt \<Rightarrow> Some (url fmt)
                   | None \<Rightarrow> None))
       QUALITY_MAP"

datatype youtube_response =
    Youtube_error string
  | Youtube_info string string "(string \<times> string option) list"

definition youtube ::
  "(string \<Rightarrow> bool) \<Rightarrow> (string \<Rightarrow> error + videoInfo) \<Rightarrow> string option \<Rightarrow> youtube_response" where
  \<comment> \<open>\<^verbatim>\<open>POST /api/youtube\<close>; \<open>validateURL\<close> and \<open>getInfo\<close> are the video library's.\<close>
  "youtube validateURL getInfo url_field =
     (case url_field of
        None \<Rightarrow> Youtube_error ''Invalid YouTube URL''
      | Some u \<Rightarrow>
          if u = [] \<or> \<not> validateURL u then Youtube_error ''Invalid YouTube URL''
          else
            (case getInfo u of
               Inl err \<Rightarrow> Youtube_error ''Failed to fetch video info''
             | Inr info \<Rightarrow>
                 Youtube_info (title info)
                   (if thumbnails info = [] then [] else last (thumbnails info))
                   (extractLinks info)))"

section \<open>Properties\<close>

subsection \<open>Image quality\<close>

lemma quality_of_examples:
  "quality_of (Some ''5'') = Num 10"
  "quality_of (Some ''999'') = Num 100"
  "quality_of (Some ''42'') = Num 42"
  "quality_of (Some ''  -7px'') = Num 10"
  "quality_of (Some []) = Num 80"
  "quality_of None = Num 80"
  by code_simp+

lemma quality_of_Num:
  "parseInt10 (or_default q ''80'') = Num k \<Longrightarrow> quality_of q = Num (max 10 (min 100 k))"
  by (simp add: quality_of_def)

lemma quality_of_NaN: "parseInt10 (or_default q ''80'') = NaN \<Longrightarrow> quality_of q = NaN"
  by (simp add: quality_of_def)

lemma quality_of_range: "quality_of q = Num n \<Longrightarrow> 10 \<le> n \<and> n \<le> 100"
  by (cases "parseInt10 (or_default q ''80'')") (auto simp: quality_of_def)

text \<open>
  C2. The quality handed to the codec lies in \<open>[10, 100]\<close> whenever the field starts with a
  decimal numeral (\<open>quality_of_range\<close>, \<open>quality_of_examples\<close>), and an absent or empty
  field gives 80. A field that is not numeric does not give the default: \<^verbatim>\<open>parseInt\<close>
  returns \<open>NaN\<close>, which \<^verbatim>\<open>Math.min\<close> and \<^verbatim>\<open>Math.max\<close> pass on, so the codec is called with
  \<open>NaN\<close> for the field \<^verbatim>\<open>"abc"\<close>.
\<close>

theorem quality_non_numeric_is_NaN:
  "quality_of (Some ''abc'') = NaN \<and> quality_of (Some ''abc'') \<noteq> Num 80"
  by code_simp

subsection \<open>PDF presets\<close>

lemma pdfSetting_levels:
  "pdfSetting ''low'' = ''/screen''"
  "pdfSetting ''medium'' = ''/ebook''"
  "pdfSetting ''high'' = ''/printer''"
  "pdfSetting ''best'' = ''/ebook''"
  by code_simp+

lemma pdfSetting_fallback:
  "level \<notin> {''low'', ''medium'', ''high''} \<Longrightarrow> level \<notin> set Object_prototype_keys
     \<Longrightarrow> pdfSetting level = ''/ebook''"
  by (simp add: pdfSetting_def settingMap_def)

text \<open>
  C3. The compressor maps the three levels to the three presets (\<open>pdfSetting_levels\<close>), but
  the route never hands it the level: whatever the field \<^verbatim>\<open>level\<close> holds, the one process
  the handler starts is Ghostscript with the preset \<^verbatim>\<open>/ebook\<close>.
\<close>

theorem pdf_compress_ignores_level:
  "calls (pdf_compress t (Some file) level_field d) =
     [ExecFile ''gs''
        [''-sDEVICE=pdfwrite'', ''-dCompatibilityLevel=1.4'', ''-dPDFSETTINGS=/ebook'',
         ''-dNOPAUSE'', ''-dQUIET'', ''-dBATCH'',
         ''-sOutputFile='' @ path_join TMP_DIR (''compressed-'' @ now t @ ''.pdf''),
         path file]]"
  by (cases "execFile t ''gs''
               (gs_args (path file) (path_join TMP_DIR (''compressed-'' @ now t @ ''.pdf'')) None)")
     (simp_all add: pdf_compress_def compressPdfWithGhostscript_def pipe_file_def Let_def,
      simp_all add: gs_args_def pdfSetting_def settingMap_def)

subsection \<open>Orders\<close>

text \<open>
  C8. When the key id or the key secret is missing from the environment (unset or empty),
  the route answers \<^verbatim>\<open>{success: false, error: "Razorpay not configured"}\<close> and sends
  nothing to the gateway.
\<close>

theorem create_order_not_configured:
  assumes "\<not> (truthy (RAZORPAY_KEY_ID e) \<and> truthy (RAZORPAY_KEY_SECRET e))"
  shows "create_order e create amount_field = (Order_failure ''Razorpay not configured'', [])"
  using assms by (auto simp: create_order_def razorpay_def truthy_def split: option.splits)

theorem create_order_not_configured_witness:
  "create_order \<lparr>RAZORPAY_KEY_ID = None, RAZORPAY_KEY_SECRET = None\<rparr>
     (\<lambda>c r. Inr ''order_1'') (Amount (Finite 500 0))
   = (Order_failure ''Razorpay not configured'', [])"
proof -
  have "\<not> (truthy (RAZORPAY_KEY_ID \<lparr>RAZORPAY_KEY_ID = None, RAZORPAY_KEY_SECRET = None\<rparr>) \<and>
            truthy (RAZORPAY_KEY_SECRET \<lparr>RAZORPAY_KEY_ID = None, RAZORPAY_KEY_SECRET = None\<rparr>))"
    by (simp add: truthy_def)
  then show ?thesis by (rule create_order_not_configured)
qed

lemma razorpay_configured:
  "truthy (RAZORPAY_KEY_ID e) \<Longrightarrow> truthy (RAZORPAY_KEY_SECRET e) \<Longrightarrow> \<exists>client. razorpay e = Some client"
  by (auto simp: razorpay_def truthy_def split: option.splits)

lemma positive_iff: "positive x \<longleftrightarrow> \<not> falsy_number x \<and> \<not> le_zero x"
  by (cases x) (auto simp: positive_def falsy_number_def le_zero_def)

lemma Number_or_zero_positive:
  "Number_or_zero f = Inr x \<Longrightarrow> positive x
     \<Longrightarrow> f = Amount x \<or> f = Other_amount True (Some x)"
  by (cases f) (auto simp: positive_def falsy_number_def split: if_splits option.splits)

lemma create_order_invalid_amount:
  assumes "truthy (RAZORPAY_KEY_ID e)" and "truthy (RAZORPAY_KEY_SECRET e)"
    and "Number_or_zero amount_field = Inr x" and "\<not> positive x"
  shows "create_order e create amount_field = (Order_failure ''Invalid amount'', [])"
proof -
  from razorpay_configured [OF assms(1,2)] obtain client where "razorpay e = Some client" ..
  with assms(3,4) show ?thesis by (simp add: create_order_def positive_iff)
qed

lemma create_order_conversion_throws:
  assumes "truthy (RAZORPAY_KEY_ID e)" and "truthy (RAZORPAY_KEY_SECRET e)"
    and "Number_or_zero amount_field = Inl err"
  shows "create_order e create amount_field = (Order_failure ''Order creation failed'', [])"
proof -
  from razorpay_configured [OF assms(1,2)] obtain client where "razorpay e = Some client" ..
  with assms(3) show ?thesis by (simp add: create_order_def)
qed

lemma bit_length_le: "m < 2 ^ k \<Longrightarrow> bit_length m \<le> k"
proof (induction k arbitrary: m)
  case 0
  then show ?case by (simp add: bit_length.simps)
next
  case (Suc k)
  show ?case
  proof (cases "m \<le> 0")
    case True
    then show ?thesis by (simp add: bit_length.simps)
  next
    case False
    from Suc.prems have "m div 2 < 2 ^ k" by simp
    then have "bit_length (m div 2) \<le> k" by (rule Suc.IH)
    with False show ?thesis by (subst bit_length.simps) simp
  qed
qed

lemma round_double_exact: "\<bar>m\<bar> < 2 ^ 53 \<Longrightarrow> round_double m 0 = Finite m 0"
proof -
  assume "\<bar>m\<bar> < 2 ^ 53"
  then have "bit_length \<bar>m\<bar> \<le> 53" by (rule bit_length_le)
  then show ?thesis by (simp add: round_double_def Let_def)
qed

lemma js_times_whole:
  "0 < a \<Longrightarrow> a * 100 < 2 ^ 53 \<Longrightarrow> js_times (Finite a 0) (Finite 100 0) = Finite (a * 100) 0"
  by (simp add: round_double_exact)

lemma js_times_examples:
  "js_times (Finite 5 0) (Finite 100 0) = Finite 500 0"
  "js_times (Finite 5626684784446013 (- 48)) (Finite 100 0) = Finite 8791694975696895 (- 42)"
  "js_times (Finite 360287970189641 0) (Finite 100 0) = Finite 4503599627370512 3"
  "js_times PosInfinity (Finite 100 0) = PosInfinity"
  by code_simp+

text \<open>
  C6, as stated: the amount sent to the gateway is the supplied amount, read in minor
  units. It is not: a supplied 5 reaches the gateway as 500.
\<close>

theorem create_order_amount_counterexample:
  "map amount (snd (create_order
      \<lparr>RAZORPAY_KEY_ID = Some ''rzp_id'', RAZORPAY_KEY_SECRET = Some ''s3cret''\<rparr>
      (\<lambda>c r. Inr ''order_1'') (Amount (Finite 5 0)))) = [Finite 500 0]
   \<and> map amount (snd (create_order
      \<lparr>RAZORPAY_KEY_ID = Some ''rzp_id'', RAZORPAY_KEY_SECRET = Some ''s3cret''\<rparr>
      (\<lambda>c r. Inr ''order_1'') (Amount (Finite 5 0)))) \<noteq> [Finite 5 0]"
  by code_simp

text \<open>
  C6, amended: with credentials configured and an amount field that is a number greater
  than zero, or a truthy value that \<^verbatim>\<open>Number\<close> converts to one, exactly one order is
  requested, in INR with \<^verbatim>\<open>payment_capture\<close> 1, and its amount is the product of the
  supplied amount and 100 in double arithmetic: the supplied amount is in major units and
  the handler converts it to minor units. For a whole amount whose hundredfold is below
  \<open>2 ^ 53\<close> the product is exact (\<open>js_times_whole\<close>); 19.99 is forwarded as
  1998.9999999999998 and 360287970189641 as 36028797018964096 (\<open>js_times_examples\<close>).
\<close>

theorem create_order_amount:
  assumes "truthy (RAZORPAY_KEY_ID e)" and "truthy (RAZORPAY_KEY_SECRET e)"
    and "amount_field = Amount x \<or> amount_field = Other_amount True (Some x)"
    and "positive x"
  shows "snd (create_order e create amount_field) =
           [\<lparr>amount = js_times x (Finite 100 0), currency = ''INR'', payment_capture = 1\<rparr>]"
proof -
  from razorpay_configured [OF assms(1,2)] obtain client where c: "razorpay e = Some client" ..
  from assms(4) have p: "\<not> falsy_number x" "\<not> le_zero x"
    by (simp_all add: positive_iff)
  from assms(3) p(1) have n: "Number_or_zero amount_field = Inr x" by auto
  show ?thesis
    by (cases "create client \<lparr>amount = js_times x (Finite 100 0), currency = ''INR'',
                               payment_capture = 1\<rparr>")
       (simp_all add: create_order_def c n p Let_def)
qed

theorem create_order_amount_witness:
  "snd (create_order \<lparr>RAZORPAY_KEY_ID = Some ''rzp_id'', RAZORPAY_KEY_SECRET = Some ''s3cret''\<rparr>
          (\<lambda>c r. Inr ''order_1'') (Amount (Finite 5 0))) =
     [\<lparr>amount = Finite 500 0, currency = ''INR'', payment_capture = 1\<rparr>]
   \<and> snd (create_order \<lparr>RAZORPAY_KEY_ID = Some ''rzp_id'', RAZORPAY_KEY_SECRET = Some ''s3cret''\<rparr>
          (\<lambda>c r. Inr ''order_1'') (Other_amount True (Some (Finite 5626684784446013 (- 48))))) =
     [\<lparr>amount = Finite 8791694975696895 (- 42), currency = ''INR'', payment_capture = 1\<rparr>]"
proof -
  let ?e = "\<lparr>RAZORPAY_KEY_ID = Some ''rzp_id'', RAZORPAY_KEY_SECRET = Some ''s3cret''\<rparr>"
  let ?y = "Finite 5626684784446013 (- 48)"
  have 1: "truthy (RAZORPAY_KEY_ID ?e)" and 2: "truthy (RAZORPAY_KEY_SECRET ?e)"
    by (simp_all add: truthy_def)
  have 3: "Amount (Finite 5 0) = Amount (Finite 5 0)
             \<or> Amount (Finite 5 0) = Other_amount True (Some (Finite 5 0))"
    and 4: "positive (Finite 5 0)"
    by (simp_all add: positive_def)
  have 5: "Other_amount True (Some ?y) = Amount ?y
             \<or> Other_amount True (Some ?y) = Other_amount True (Some ?y)"
    and 6: "positive ?y"
    by (simp_all add: positive_def)
  have a: "js_times (Finite 5 0) (Finite 100 0) = Finite 500 0"
    and b: "js_times ?y (Finite 100 0) = Finite 8791694975696895 (- 42)"
    by code_simp+
  show ?thesis
    using create_order_amount [OF 1 2 3 4] create_order_amount [OF 1 2 5 6]
    by (simp only: a b)
qed

subsection \<open>Payment verification\<close>

lemma verify_payment_returns: "\<exists>r. verify_payment hmac e a b c = Inr r"
  by (cases "verify_try hmac e a b c") (auto simp: verify_payment_def)

lemma verify_try_truthy:
  assumes "truthy_field oid" and "truthy_field pid" and "truthy_field sig"
    and "RAZORPAY_KEY_SECRET e = Some secret" and "secret \<noteq> []"
  shows "verify_try hmac e oid pid sig =
           (case to_string oid of
              Inl err \<Rightarrow> Inl err
            | Inr a \<Rightarrow>
                (case to_string pid of
                   Inl err \<Rightarrow> Inl err
                 | Inr b \<Rightarrow>
                     Inr (sig = Str (hmac secret (a @ ''|'' @ b)), [(secret, a @ ''|'' @ b)])))"
  using assms
  by (auto simp: verify_try_def truthy_def or_default_def Let_def split: sum.splits)

text \<open>
  C4. For a request that carries the three fields (each truthy, as the handler tests it),
  with the secret set to a non-empty string: when \<^verbatim>\<open>order_id + "|" + payment_id\<close> is the
  string \<open>a @ ''|'' @ b\<close>, the response is \<^verbatim>\<open>{verified: v}\<close> where \<open>v\<close> holds exactly when
  the supplied signature is a string and is the hex digest of the HMAC of that string
  under the secret, code unit for code unit (so a signature that differs in case or by a
  blank is refused), and the digest is computed once; when building that string throws,
  the response is \<^verbatim>\<open>{verified: false}\<close> and no digest is computed. And the handler returns
  a response on every input: no exception leaves it.
\<close>

theorem verify_payment_signature:
  assumes "truthy_field oid" and "truthy_field pid" and "truthy_field sig"
    and "RAZORPAY_KEY_SECRET e = Some secret" and "secret \<noteq> []"
  shows "verify_payment hmac e oid pid sig =
           (case to_string oid of
              Inl err \<Rightarrow> Inr (False, [])
            | Inr a \<Rightarrow>
                (case to_string pid of
                   Inl err \<Rightarrow> Inr (False, [])
                 | Inr b \<Rightarrow>
                     Inr (sig = Str (hmac secret (a @ ''|'' @ b)), [(secret, a @ ''|'' @ b)])))
         \<and> (\<forall>e' x y z. \<exists>r. verify_payment hmac e' x y z = Inr r)"
proof
  show "verify_payment hmac e oid pid sig =
           (case to_string oid of
              Inl err \<Rightarrow> Inr (False, [])
            | Inr a \<Rightarrow>
                (case to_string pid of
                   Inl err \<Rightarrow> Inr (False, [])
                 | Inr b \<Rightarrow>
                     Inr (sig = Str (hmac secret (a @ ''|'' @ b)), [(secret, a @ ''|'' @ b)])))"
    unfolding verify_payment_def verify_try_truthy [OF assms, of hmac]
    by (simp split: sum.splits)
  show "\<forall>e' x y z. \<exists>r. verify_payment hmac e' x y z = Inr r"
    using verify_payment_returns [of hmac] by blast
qed

theorem verify_payment_signature_witness:
  "verify_payment (\<lambda>k m. k @ '':'' @ m) \<lparr>RAZORPAY_KEY_ID = None, RAZORPAY_KEY_SECRET = Some ''ab''\<rparr>
     (Str ''o1'') (Str ''p1'') (Str ''ab:o1|p1'') = Inr (True, [(''ab'', ''o1|p1'')]) \<and>
   verify_payment (\<lambda>k m. k @ '':'' @ m) \<lparr>RAZORPAY_KEY_ID = None, RAZORPAY_KEY_SECRET = Some ''ab''\<rparr>
     (Str ''o1'') (Str ''p1'') (Str ''AB:o1|p1'') = Inr (False, [(''ab'', ''o1|p1'')]) \<and>
   verify_payment (\<lambda>k m. k @ '':'' @ m) \<lparr>RAZORPAY_KEY_ID = None, RAZORPAY_KEY_SECRET = Some ''ab''\<rparr>
     (Str ''o1'') (Str ''p1'') (Str ''ab:o1|p1 '') = Inr (False, [(''ab'', ''o1|p1'')]) \<and>
   verify_payment (\<lambda>k m. k @ '':'' @ m) \<lparr>RAZORPAY_KEY_ID = None, RAZORPAY_KEY_SECRET = Some ''ab''\<rparr>
     (Other True (Some ''17'')) (Str ''p1'') (Str ''ab:17|p1'') = Inr (True, [(''ab'', ''17|p1'')]) \<and>
   verify_payment (\<lambda>k m. k @ '':'' @ m) \<lparr>RAZORPAY_KEY_ID = None, RAZORPAY_KEY_SECRET = Some ''ab''\<rparr>
     (Other True None) (Str ''p1'') (Str ''ab:o1|p1'') = Inr (False, [])"
proof -
  let ?e = "\<lparr>RAZORPAY_KEY_ID = None, RAZORPAY_KEY_SECRET = Some ''ab''\<rparr>"
  let ?h = "\<lambda>k m. k @ '':'' @ (m :: string)"
  have s: "RAZORPAY_KEY_SECRET ?e = Some ''ab''" and n: "''ab'' \<noteq> []" by simp_all
  have f: "truthy_field (Str ''o1'')" "truthy_field (Str ''p1'')"
          "truthy_field (Other True (Some ''17''))" "truthy_field (Other True None)"
    by simp_all
  have g: "truthy_field (Str ''ab:o1|p1'')" "truthy_field (Str ''AB:o1|p1'')"
          "truthy_field (Str ''ab:o1|p1 '')" "truthy_field (Str ''ab:17|p1'')"
    by simp_all
  have 1: "verify_payment ?h ?e (Str ''o1'') (Str ''p1'') (Str ''ab:o1|p1'') =
             Inr (True, [(''ab'', ''o1|p1'')])"
    using verify_payment_signature [OF f(1) f(2) g(1) s n, of ?h] by simp
  have 2: "verify_payment ?h ?e (Str ''o1'') (Str ''p1'') (Str ''AB:o1|p1'') =
             Inr (False, [(''ab'', ''o1|p1'')])"
    using verify_payment_signature [OF f(1) f(2) g(2) s n, of ?h] by simp
  have 3: "verify_payment ?h ?e (Str ''o1'') (Str ''p1'') (Str ''ab:o1|p1 '') =
             Inr (False, [(''ab'', ''o1|p1'')])"
    using verify_payment_signature [OF f(1) f(2) g(3) s n, of ?h] by simp
  have 4: "verify_payment ?h ?e (Other True (Some ''17'')) (Str ''p1'') (Str ''ab:17|p1'') =
             Inr (True, [(''ab'', ''17|p1'')])"
    using verify_payment_signature [OF f(3) f(2) g(4) s n, of ?h] by simp
  have 5: "verify_payment ?h ?e (Other True None) (Str ''p1'') (Str ''ab:o1|p1'') =
             Inr (False, [])"
    using verify_payment_signature [OF f(4) f(2) g(1) s n, of ?h] by simp
  from 1 2 3 4 5 show ?thesis by (intro conjI)
qed

text \<open>
  C10. When one of the three fields is absent (or otherwise falsy: an empty string,
  \<^verbatim>\<open>null\<close>, \<^verbatim>\<open>false\<close>, \<^verbatim>\<open>0\<close>), or the secret is unset or empty, the response is
  \<^verbatim>\<open>{verified: false}\<close> and no HMAC is computed.
\<close>

theorem verify_payment_missing:
  assumes "\<not> truthy_field razorpay_order_id \<or> \<not> truthy_field razorpay_payment_id \<or>
           \<not> truthy_field razorpay_signature \<or> \<not> truthy (RAZORPAY_KEY_SECRET e)"
  shows "verify_payment hmac e razorpay_order_id razorpay_payment_id razorpay_signature
           = Inr (False, [])"
  using assms by (auto simp: verify_payment_def verify_try_def)

theorem verify_payment_missing_witness:
  "verify_payment (\<lambda>k m. k @ '':'' @ m)
     \<lparr>RAZORPAY_KEY_ID = Some ''rzp_id'', RAZORPAY_KEY_SECRET = Some ''ab''\<rparr>
     (Str ''o1'') Undefined (Str ''ab:o1|p1'') = Inr (False, []) \<and>
   verify_payment (\<lambda>k m. k @ '':'' @ m)
     \<lparr>RAZORPAY_KEY_ID = Some ''rzp_id'', RAZORPAY_KEY_SECRET = None\<rparr>
     (Str ''o1'') (Str ''p1'') (Str '':o1|p1'') = Inr (False, [])"
proof -
  have 1: "\<not> truthy_field (Str ''o1'') \<or> \<not> truthy_field Undefined \<or>
           \<not> truthy_field (Str ''ab:o1|p1'') \<or>
           \<not> truthy (RAZORPAY_KEY_SECRET
                \<lparr>RAZORPAY_KEY_ID = Some ''rzp_id'', RAZORPAY_KEY_SECRET = Some ''ab''\<rparr>)"
    by simp
  have 2: "\<not> truthy_field (Str ''o1'') \<or> \<not> truthy_field (Str ''p1'') \<or>
           \<not> truthy_field (Str '':o1|p1'') \<or>
           \<not> truthy (RAZORPAY_KEY_SECRET
                \<lparr>RAZORPAY_KEY_ID = Some ''rzp_id'', RAZORPAY_KEY_SECRET = None\<rparr>)"
    by (simp add: truthy_def)
  show ?thesis
    using verify_payment_missing [OF 1] verify_payment_missing [OF 2] by (intro conjI)
qed

subsection \<open>Quality ladder\<close>

lemma extractLinks_keys: "map fst (extractLinks info) = QUALITY_MAP"
  by (simp add: extractLinks_def comp_def)

lemma extractLinks_value:
  assumes "(q, v) \<in> set (extractLinks info)"
  shows "case v of
           Some l \<Rightarrow> \<exists>f \<in> set (formats info). qualityLabel f = Some q \<and> hasVideo f \<and> url f = l
         | None \<Rightarrow> \<forall>f \<in> set (formats info). \<not> (qualityLabel f = Some q \<and> hasVideo f)"
proof -
  let ?P = "\<lambda>f. qualityLabel f = Some q \<and> hasVideo f"
  from assms have v: "v = (case find ?P (formats info) of Some fmt \<Rightarrow> Some (url fmt) | None \<Rightarrow> None)"
    by (auto simp: extractLinks_def)
  show ?thesis
  proof (cases "find ?P (formats info)")
    case None
    with v have "v = None" by simp
    moreover from None have "\<forall>f \<in> set (formats info). \<not> ?P f"
      by (simp add: find_None_iff)
    ultimately show ?thesis by simp
  next
    case (Some fmt)
    then have "fmt \<in> set (formats info)" "?P fmt"
      by (auto simp: find_Some_iff)
    moreover from v Some have "v = Some (url fmt)" by simp
    ultimately show ?thesis by auto
  qed
qed

lemma youtube_info:
  assumes "youtube validateURL getInfo url_field = Youtube_info t th links"
  shows "\<exists>u info. url_field = Some u \<and> getInfo u = Inr info \<and> links = extractLinks info"
proof (cases url_field)
  case None
  with assms show ?thesis by (simp add: youtube_def)
next
  case (Some u)
  show ?thesis
  proof (cases "getInfo u")
    case (Inl err)
    with assms Some show ?thesis by (simp add: youtube_def split: if_splits)
  next
    case (Inr info)
    with assms Some show ?thesis by (simp add: youtube_def split: if_splits)
  qed
qed

text \<open>
  C9. A successful response of the route carries the links computed from the information
  the video library returned for the URL: their keys are the six labels of the ladder, in
  its order, and the value under a key is the URL of a format of that label that has video,
  or \<^verbatim>\<open>null\<close> when the video has no such format.
\<close>

theorem youtube_links:
  assumes "youtube validateURL getInfo url_field = Youtube_info t th links"
  shows "\<exists>u info. url_field = Some u \<and> getInfo u = Inr info \<and>
           map fst links = [''144p'', ''240p'', ''360p'', ''480p'', ''720p'', ''1080p''] \<and>
           (\<forall>q v. (q, v) \<in> set links \<longrightarrow>
              (case v of
                 Some l \<Rightarrow> \<exists>f \<in> set (formats info). qualityLabel f = Some q \<and> hasVideo f \<and> url f = l
               | None \<Rightarrow> \<forall>f \<in> set (formats info). \<not> (qualityLabel f = Some q \<and> hasVideo f)))"
proof -
  from youtube_info [OF assms] obtain u info
    where u: "url_field = Some u" and i: "getInfo u = Inr info" and l: "links = extractLinks info"
    by blast
  have k: "map fst links = [''144p'', ''240p'', ''360p'', ''480p'', ''720p'', ''1080p'']"
    using extractLinks_keys [of info] by (simp add: l QUALITY_MAP_def)
  have v: "\<forall>q v. (q, v) \<in> set links \<longrightarrow>
              (case v of
                 Some l \<Rightarrow> \<exists>f \<in> set (formats info). qualityLabel f = Some q \<and> hasVideo f \<and> url f = l
               | None \<Rightarrow> \<forall>f \<in> set (formats info). \<not> (qualityLabel f = Some q \<and> hasVideo f))"
    unfolding l by (intro allI impI) (rule extractLinks_value)
  from u i k v show ?thesis by (intro exI conjI)
qed

theorem youtube_links_witness:
  "youtube (\<lambda>u. True)
     (\<lambda>u. Inr \<lparr>formats =
                 [\<lparr>qualityLabel = None, hasVideo = False, url = ''https://cdn/audio''\<rparr>,
                  \<lparr>qualityLabel = Some ''360p'', hasVideo = True, url = ''https://cdn/360''\<rparr>,
                  \<lparr>qualityLabel = Some ''720p'', hasVideo = False, url = ''https://cdn/720''\<rparr>],
               title = ''clip'', thumbnails = [''https://img/1'', ''https://img/2'']\<rparr>)
     (Some ''https://youtu.be/x'')
   = Youtube_info ''clip'' ''https://img/2''
       [(''144p'', None), (''240p'', None), (''360p'', Some ''https://cdn/360''),
        (''480p'', None), (''720p'', None), (''1080p'', None)]
   \<and> map fst [(''144p'', None), (''240p'', None), (''360p'', Some ''https://cdn/360''),
        (''480p'', None), (''720p'', None), (''1080p'', None :: string option)]
     = [''144p'', ''240p'', ''360p'', ''480p'', ''720p'', ''1080p'']"
proof -
  let ?get = "\<lambda>u :: string. (Inr \<lparr>formats =
                 [\<lparr>qualityLabel = None, hasVideo = False, url = ''https://cdn/audio''\<rparr>,
                  \<lparr>qualityLabel = Some ''360p'', hasVideo = True, url = ''https://cdn/360''\<rparr>,
                  \<lparr>qualityLabel = Some ''720p'', hasVideo = False, url = ''https://cdn/720''\<rparr>],
               title = ''clip'', thumbnails = [''https://img/1'', ''https://img/2'']\<rparr>
               :: error + videoInfo)"
  let ?links = "[(''144p'', None), (''240p'', None), (''360p'', Some ''https://cdn/360''),
        (''480p'', None), (''720p'', None), (''1080p'', None :: string option)]"
  have h: "youtube (\<lambda>u. True) ?get (Some ''https://youtu.be/x'')
             = Youtube_info ''clip'' ''https://img/2'' ?links"
    by (simp add: youtube_def extractLinks_def QUALITY_MAP_def)
  from youtube_links [OF h] have "map fst ?links = [''144p'', ''240p'', ''360p'', ''480p'', ''720p'', ''1080p'']"
    by blast
  with h show ?thesis by (intro conjI)
qed

subsection \<open>Conversion router\<close>

text \<open>
  C5. A request with a file whose pair of source extension and target is none of
  image to image, audio/video to audio/video, document to pdf is answered with status 400
  and a JSON error that names both; no codec or process is invoked, the upload is unlinked,
  and no file is added to the temp directory.
\<close>

theorem file_convert_unsupported:
  assumes "ext = replace_dot (toLowerCase (extname (originalname file)))"
    and "target = toLowerCase (or_default target_field [])"
    and "\<not> (ext \<in> set imageTypes \<and> target \<in> set imageTypes)"
    and "\<not> (ext \<in> set avTypes \<and> target \<in> set avTypes)"
    and "\<not> (target = ''pdf'' \<and> ext \<in> set docTypes)"
  shows "file_convert t (Some file) target_field d =
           \<lparr>resp = \<lparr>status = 400,
                     body = Json_error (''Conversion from .'' @ ext @ '' to .'' @ target
                                          @ '' is not supported yet.'')\<rparr>,
            dir = safeUnlink (path file) d,
            calls = []\<rparr>
         \<and> set (files (safeUnlink (path file) d)) \<subseteq> set (files d)"
proof -
  have "file_convert t (Some file) target_field d =
           \<lparr>resp = \<lparr>status = 400, body = Json_error (unsupported_message ext target)\<rparr>,
            dir = safeUnlink (path file) d, calls = []\<rparr>"
  proof -
    have a: "(ext \<in> set imageTypes \<and> target \<in> set imageTypes) = False"
      and b: "(ext \<in> set avTypes \<and> target \<in> set avTypes) = False"
      and c: "(target = ''pdf'' \<and> ext \<in> set docTypes) = False"
      using assms(3-5) by simp_all
    show ?thesis
      unfolding file_convert_def Let_def assms(1,2)[symmetric] option.case
      by (simp only: a b c if_False)
  qed
  moreover have "set (files (safeUnlink (path file) d)) \<subseteq> set (files d)"
    by (auto simp: safeUnlink_def)
  ultimately show ?thesis by (simp add: unsupported_message_def)
qed

theorem file_convert_unsupported_witness:
  "file_convert
     \<lparr>sharp = (\<lambda>p f q. Inr [1, 2, 3]), execFile = (\<lambda>c args. Exited_ok [last args]),
       now = ''1700000000000''\<rparr>
     (Some \<lparr>path = ''tmp/3f2a'', originalname = ''setup.exe''\<rparr>) (Some ''pdf'')
     \<lparr>files = [''tmp/3f2a''], unlinked = []\<rparr>
   = \<lparr>resp = \<lparr>status = 400,
               body = Json_error ''Conversion from .exe to .pdf is not supported yet.''\<rparr>,
      dir = \<lparr>files = [], unlinked = [''tmp/3f2a'']\<rparr>,
      calls = []\<rparr>"
proof -
  let ?file = "\<lparr>path = ''tmp/3f2a'', originalname = ''setup.exe''\<rparr>"
  have 1: "''exe'' = replace_dot (toLowerCase (extname (originalname ?file)))"
    by code_simp
  have 2: "''pdf'' = toLowerCase (or_default (Some ''pdf'') [])"
    by code_simp
  have 3: "\<not> (''exe'' \<in> set imageTypes \<and> ''pdf'' \<in> set imageTypes)"
    and 4: "\<not> (''exe'' \<in> set avTypes \<and> ''pdf'' \<in> set avTypes)"
    and 5: "\<not> (''pdf'' = ''pdf'' \<and> ''exe'' \<in> set docTypes)"
    by (simp_all add: imageTypes_def avTypes_def docTypes_def)
  show ?thesis
    using file_convert_unsupported [OF 1 2 3 4 5]
    by (simp add: safeUnlink_def)
qed

subsection \<open>Archive of the image compressor\<close>

lemma compress_files_entries:
  "fst (compress_files t q fs (es, d, cs)) = es @ map (entry_of t q) fs"
proof (induction fs arbitrary: es d cs)
  case Nil
  show ?case by simp
next
  case (Cons f rest)
  show ?case
    by (cases "sharp t (path f) (targetFormat_of (toLowerCase (extname (originalname f)))) q")
       (simp_all add: Let_def entry_of_def Cons.IH)
qed

lemma compress_files_unlinked:
  "unlinked (fst (snd (compress_files t q fs (es, d, cs)))) = unlinked d @ map path fs"
proof (induction fs arbitrary: es d cs)
  case Nil
  show ?case by simp
next
  case (Cons f rest)
  show ?case
    by (cases "sharp t (path f) (targetFormat_of (toLowerCase (extname (originalname f)))) q")
       (simp_all add: Let_def Cons.IH safeUnlink_def)
qed

lemma compress_files_files:
  "set (files (fst (snd (compress_files t q fs (es, d, cs))))) = set (files d) - path ` set fs"
proof (induction fs arbitrary: es d cs)
  case Nil
  show ?case by simp
next
  case (Cons f rest)
  have s: "set (files (safeUnlink (path f) d)) = set (files d) - {path f}"
    by (simp add: safeUnlink_def)
  show ?case
    by (cases "sharp t (path f) (targetFormat_of (toLowerCase (extname (originalname f)))) q")
       (auto simp add: Let_def Cons.IH s)
qed

lemma image_compress_releases:
  "req_files \<noteq> [] \<Longrightarrow>
   unlinked (dir (image_compress t quality_field req_files d)) = unlinked d @ map path req_files"
  using compress_files_unlinked [of t "quality_of quality_field" req_files "[]" d "[]"]
  by (auto simp: image_compress_def Let_def split: prod.splits)

lemma image_compress_cleanup:
  "req_files \<noteq> [] \<Longrightarrow>
   set (files (dir (image_compress t quality_field req_files d))) = set (files d) - path ` set req_files"
  using compress_files_files [of t "quality_of quality_field" req_files "[]" d "[]"]
  by (auto simp: image_compress_def Let_def split: prod.splits)

lemma entry_of_cases:
  "(\<exists>buf name. entry_of t q f = Append buf name) \<or> entry_of t q f = File (path f) (originalname f)"
  by (auto simp: entry_of_def Let_def split: sum.splits)

lemma finalize_after_unlink:
  assumes "set (files d') = set (files d) - path ` set fs"
  shows "finalize (map (entry_of t q) fs) d' =
           filter (\<lambda>e. case e of Append buf name \<Rightarrow> True | File p name \<Rightarrow> False)
             (map (entry_of t q) fs)"
  unfolding finalize_def
proof (rule filter_cong [OF refl])
  fix e assume "e \<in> set (map (entry_of t q) fs)"
  then obtain f where f: "f \<in> set fs" and e: "e = entry_of t q f" by auto
  from entry_of_cases [of t q f] show
    "readable d' e = (case e of Append buf name \<Rightarrow> True | File p name \<Rightarrow> False)"
  proof
    assume "\<exists>buf name. entry_of t q f = Append buf name"
    then show ?thesis by (auto simp: e readable_def)
  next
    assume "entry_of t q f = File (path f) (originalname f)"
    moreover from f assms have "path f \<notin> set (files d')" by auto
    ultimately show ?thesis by (simp add: e readable_def)
  qed
qed

lemma image_compress_delivers_buffers_only:
  assumes "req_files \<noteq> []"
  shows "resp (image_compress t quality_field req_files d) =
           \<lparr>status = 200,
             body = Zip (filter (\<lambda>e. case e of Append buf name \<Rightarrow> True | File p name \<Rightarrow> False)
                           (map (entry_of t (quality_of quality_field)) req_files))\<rparr>"
proof -
  obtain es d' cs
    where c: "compress_files t (quality_of quality_field) req_files ([], d, []) = (es, d', cs)"
    by (cases "compress_files t (quality_of quality_field) req_files ([], d, [])") auto
  have es: "es = map (entry_of t (quality_of quality_field)) req_files"
    using compress_files_entries [of t "quality_of quality_field" req_files "[]" d "[]"] c
    by simp
  have "set (files d') = set (files d) - path ` set req_files"
    using compress_files_files [of t "quality_of quality_field" req_files "[]" d "[]"] c
    by simp
  then have "finalize es d' =
           filter (\<lambda>e. case e of Append buf name \<Rightarrow> True | File p name \<Rightarrow> False)
             (map (entry_of t (quality_of quality_field)) req_files)"
    unfolding es by (rule finalize_after_unlink)
  with assms c show ?thesis by (simp add: image_compress_def Let_def)
qed

text \<open>
  C7. The claim: a batch of \<open>N\<close> uploads of which one is corrupt gives an archive of \<open>N\<close>
  entries, the corrupt upload under its original name among them. The handler does hand
  the archiver one entry per upload, the file itself where the codec fails
  (\<open>compress_files_entries\<close>), but the same iteration unlinks the upload before the archiver
  reads it, so only the recompressed buffers arrive (\<open>image_compress_delivers_buffers_only\<close>):
  for three uploads of which the second is corrupt the archive has two entries.
\<close>

theorem image_compress_drops_fallback_entry:
  "image_compress
      \<lparr>sharp = (\<lambda>p f q. if p = ''tmp/u2'' then Inl (Error ''corrupt'') else Inr [1, 2, 3]),
        execFile = (\<lambda>c args. Exited_ok []), now = ''1700000000000''\<rparr>
      (Some ''60'')
      [\<lparr>path = ''tmp/u1'', originalname = ''a.jpg''\<rparr>,
       \<lparr>path = ''tmp/u2'', originalname = ''b.png''\<rparr>,
       \<lparr>path = ''tmp/u3'', originalname = ''c.webp''\<rparr>]
      \<lparr>files = [''tmp/u1'', ''tmp/u2'', ''tmp/u3''], unlinked = []\<rparr>
   = \<lparr>resp = \<lparr>status = 200,
               body = Zip [Append [1, 2, 3] ''a-compressed.jpg'',
                           Append [1, 2, 3] ''c-compressed.webp'']\<rparr>,
      dir = \<lparr>files = [], unlinked = [''tmp/u1'', ''tmp/u2'', ''tmp/u3'']\<rparr>,
      calls = [Sharp ''tmp/u1'' ''jpeg'' (Num 60), Sharp ''tmp/u2'' ''png'' (Num 60),
               Sharp ''tmp/u3'' ''webp'' (Num 60)]\<rparr>"
  by code_simp

subsection \<open>Cleanup of the temp directory\<close>

lemma pdf_compress_cleanup:
  assumes "outputPath = path_join TMP_DIR (''compressed-'' @ now t @ ''.pdf'')"
    and "case execFile t ''gs'' (gs_args (path file) outputPath None) of
           Exited_ok ws \<Rightarrow> set ws = {outputPath}
         | Exited_error ws \<Rightarrow> set ws \<subseteq> {outputPath}"
  shows "set (files (dir (pdf_compress t (Some file) level_field d)))
           = set (files d) - {path file, outputPath}"
  using assms(2) unfolding assms(1)
  by (cases "execFile t ''gs''
               (gs_args (path file) (path_join TMP_DIR (''compressed-'' @ now t @ ''.pdf'')) None)")
     (auto simp: pdf_compress_def compressPdfWithGhostscript_def pipe_file_def Let_def
        safeUnlink_def writes_def)

lemma file_convert_failed_transcode:
  assumes "replace_dot (toLowerCase (extname (originalname file))) \<in> set avTypes"
    and "toLowerCase (or_default target_field []) \<in> set avTypes"
    and "convertWithFfmpeg t (path file)
           (path_join TMP_DIR (basename (originalname file) (extname (originalname file)) @ ''-''
              @ now t @ ''.'' @ toLowerCase (or_default target_field [])))
         = (c, Exited_error ws)"
  shows "dir (file_convert t (Some file) target_field d) = safeUnlink (path file) (writes ws d)"
proof -
  have "\<not> (replace_dot (toLowerCase (extname (originalname file))) \<in> set imageTypes)"
    using assms(1) by (auto simp: avTypes_def imageTypes_def)
  then show ?thesis using assms by (simp add: file_convert_def Let_def)
qed

lemma pdf_compress_draft_leaves_output:
  "dir (pdf_compress_draft
      \<lparr>sharp = (\<lambda>p f q. Inl (Error [])), execFile = (\<lambda>c args. Exited_error [''tmp/compressed-1700000000000.pdf'']),
        now = ''1700000000000''\<rparr>
      (Some \<lparr>path = ''tmp/3f2a'', originalname = ''scan.pdf''\<rparr>)
      \<lparr>files = [''tmp/3f2a''], unlinked = []\<rparr>)
   = \<lparr>files = [''tmp/compressed-1700000000000.pdf''], unlinked = [''tmp/3f2a'']\<rparr>"
  by code_simp

text \<open>
  C1. The invariant holds for the image compressor (\<open>image_compress_cleanup\<close>,
  \<open>image_compress_releases\<close>) and for
  the PDF compressor of \<^verbatim>\<open>server.js\<close>, whose \<^verbatim>\<open>catch\<close> unlinks the input and the output
  (\<open>pdf_compress_cleanup\<close>). The \<^verbatim>\<open>catch\<close> of the file converter unlinks the input only: when
  the transcoder has created its output file and then exits with an error, the response is
  the 500 and the output file stays in the temp directory.
\<close>

theorem file_convert_failed_transcode_leaves_output:
  "file_convert
     \<lparr>sharp = (\<lambda>p f q. Inl (Error [])), execFile = (\<lambda>c args. Exited_error [last args]),
       now = ''1700000000000''\<rparr>
     (Some \<lparr>path = ''tmp/3f2a'', originalname = ''clip.mp4''\<rparr>) (Some ''mp3'')
     \<lparr>files = [''tmp/3f2a''], unlinked = []\<rparr>
   = \<lparr>resp = \<lparr>status = 500, body = Text ''File conversion failed''\<rparr>,
      dir = \<lparr>files = [''tmp/clip-1700000000000.mp3''], unlinked = [''tmp/3f2a'']\<rparr>,
      calls = [ExecFile ''ffmpeg'' [''-y'', ''-i'', ''tmp/3f2a'', ''tmp/clip-1700000000000.mp3'']]\<rparr>"
  by code_simp

end
